theory Spec2Isabelle
  imports Complex_Main "HOL-Library.Word" "HOL-Library.AList"
begin

unbundle bit_operations_syntax

section \<open>proc-ws-server: a WebSocket push server for /proc statistics\<close>

text \<open>
  A shallow embedding of \<^verbatim>\<open>proc-ws-server.py\<close> (Python 2). A Python \<^verbatim>\<open>str\<close> is a
  byte string: it is a \<open>string\<close> where the code treats it as text and a list of
  8-bit words where the code does bit arithmetic on it. Python integers are unbounded
  (\<open>nat\<close>, \<open>int\<close>); Python floats are idealised as \<open>real\<close>. An exception is a
  value of \<open>error\<close>; a function that can raise returns \<open>error + 'a\<close>, and one that
  also changes state returns that result paired with the state it leaves behind.
\<close>

datatype error =
  IndexError | KeyError | ValueError | TypeError | StructError
  | ZeroDivisionError | SocketError | IOError

type_synonym byte = "8 word"

subsection \<open>The frame codec\<close>

text \<open>
  \<^verbatim>\<open>self.rfile.read(n)\<close> blocks until \<open>n\<close> bytes have arrived or the peer has closed,
  so on a stream that ends it returns the bytes that are left. The stream is the list
  of bytes the peer sends before closing.
\<close>

definition rfile_read :: "nat \<Rightarrow> byte list \<Rightarrow> byte list \<times> byte list" where
  "rfile_read n stream = (take n stream, drop n stream)"

text \<open>
  \<^verbatim>\<open>struct.unpack(">H", b)\<close> and \<^verbatim>\<open>struct.unpack(">Q", b)\<close>: an unsigned big-endian
  number of 2 or 8 bytes; \<^verbatim>\<open>struct.error\<close> when \<open>b\<close> has another length.
  \<^verbatim>\<open>struct.pack\<close> is the other direction; it raises \<^verbatim>\<open>struct.error\<close> when the number
  does not fit.
\<close>

definition be_value :: "byte list \<Rightarrow> nat" where
  "be_value bs = foldl (\<lambda>acc b. acc * 256 + unat b) 0 bs"

definition struct_unpack :: "nat \<Rightarrow> byte list \<Rightarrow> error + nat" where
  "struct_unpack k bs = (if length bs = k then Inr (be_value bs) else Inl StructError)"

fun be_bytes :: "nat \<Rightarrow> nat \<Rightarrow> byte list" where
  "be_bytes 0 n = []"
| "be_bytes (Suc k) n = be_bytes k (n div 256) @ [of_nat (n mod 256)]"

definition struct_pack :: "nat \<Rightarrow> nat \<Rightarrow> error + byte list" where
  "struct_pack k n = (if n < 256 ^ k then Inr (be_bytes k n) else Inl StructError)"

text \<open>
  The loop of \<^verbatim>\<open>read_next_message\<close>:
  \<^verbatim>\<open>for char in payload: decoded += chr(ord(char) ^ masks[len(decoded) % 4])\<close>.
  \<open>masks\<close> has as many entries as the stream still had bytes (at most 4), and indexing
  past its end raises \<^verbatim>\<open>IndexError\<close>.
\<close>

fun unmask :: "byte list \<Rightarrow> byte list \<Rightarrow> byte list \<Rightarrow> error + byte list" where
  "unmask masks [] decoded = Inr decoded"
| "unmask masks (c # cs) decoded =
     (let i = length decoded mod 4 in
      if i < length masks then unmask masks cs (decoded @ [c XOR masks ! i])
      else Inl IndexError)"

text \<open>
  \<^verbatim>\<open>read_next_message\<close>. The result is the string handed to \<^verbatim>\<open>on_message\<close> (which
  prints it), or the exception raised, together with the rest of the stream.
\<close>

definition read_next_message :: "byte list \<Rightarrow> (error + byte list) \<times> byte list" where
  "read_next_message stream =
     (let (hdr, s1) = rfile_read 2 stream in
      if length hdr < 2 then (Inl IndexError, s1)
      else
        let code = unat (hdr ! 1 AND 127);
            (len, s2) =
              (if code = 126 then
                 (let (b, s) = rfile_read 2 s1 in (struct_unpack 2 b, s))
               else if code = 127 then
                 (let (b, s) = rfile_read 8 s1 in (struct_unpack 8 b, s))
               else (Inr code, s1))
        in case len of
             Inl e \<Rightarrow> (Inl e, s2)
           | Inr n \<Rightarrow>
               (let (masks, s3) = rfile_read 4 s2;
                    (payload, s4) = rfile_read n s3
                in (unmask masks payload [], s4)))"

text \<open>
  The socket of the connection: \<^verbatim>\<open>self.request.send(data)\<close> raises \<^verbatim>\<open>socket.error\<close>
  once the peer is gone, and otherwise puts the bytes on the wire and returns how many.
  (A send that the kernel accepts only in part is not modelled: \<open>wire\<close> holds the bytes
  handed to \<^verbatim>\<open>send\<close>, in order.) \<open>inbox\<close> holds what the peer sends before it
  closes, in the pieces in which \<^verbatim>\<open>recv\<close> will see it.
\<close>

record conn =
  peer_open :: bool
  wire :: "byte list"
  inbox :: "byte list list"

definition request_send :: "byte list \<Rightarrow> conn \<Rightarrow> (error + nat) \<times> conn" where
  "request_send bs c =
     (if peer_open c then (Inr (length bs), c\<lparr>wire := wire c @ bs\<rparr>)
      else (Inl SocketError, c))"

text \<open>
  \<^verbatim>\<open>send_message\<close>: the control byte \<^verbatim>\<open>chr(129)\<close>, then the length in one of three
  forms, then the message, each with a \<^verbatim>\<open>send\<close> of its own. \<open>send_length\<close> is the
  \<^verbatim>\<open>if/elif/else\<close> on the length (in its last branch \<^verbatim>\<open>chr(127)\<close> is sent before
  \<^verbatim>\<open>struct.pack\<close> can raise).
\<close>

definition send_then ::
  "byte list \<Rightarrow> (conn \<Rightarrow> (error + unit) \<times> conn) \<Rightarrow> conn \<Rightarrow> (error + unit) \<times> conn" where
  "send_then bs k c =
     (case request_send bs c of
        (Inl e, c') \<Rightarrow> (Inl e, c')
      | (Inr _, c') \<Rightarrow> k c')"

definition send_length :: "nat \<Rightarrow> conn \<Rightarrow> (error + unit) \<times> conn" where
  "send_length len c =
     (if len \<le> 125 then send_then [of_nat len] (\<lambda>c. (Inr (), c)) c
      else if len \<ge> 126 \<and> len \<le> 65535 then
        send_then [126]
          (\<lambda>c. case struct_pack 2 len of
                  Inl e \<Rightarrow> (Inl e, c)
                | Inr bs \<Rightarrow> send_then bs (\<lambda>c. (Inr (), c)) c) c
      else
        send_then [127]
          (\<lambda>c. case struct_pack 8 len of
                  Inl e \<Rightarrow> (Inl e, c)
                | Inr bs \<Rightarrow> send_then bs (\<lambda>c. (Inr (), c)) c) c)"

definition send_message :: "byte list \<Rightarrow> conn \<Rightarrow> (error + unit) \<times> conn" where
  "send_message message c =
     send_then [129]
       (\<lambda>c. case send_length (length message) c of
               (Inl e, c') \<Rightarrow> (Inl e, c')
             | (Inr _, c') \<Rightarrow> send_then message (\<lambda>c. (Inr (), c)) c') c"

text \<open>
  What a client puts on the wire for a payload (RFC 6455 masking, as the claim words it):
  byte \<open>i\<close> of the payload XORed with byte \<open>i mod 4\<close> of the mask. This is the peer's
  side, which the server does not contain.
\<close>

definition mask_payload :: "byte list \<Rightarrow> byte list \<Rightarrow> byte list" where
  "mask_payload key payload =
     map (\<lambda>(i, b). b XOR key ! (i mod 4)) (zip [0..<length payload] payload)"

text \<open>The three-tier length encoding on its own: the bytes \<open>send_length\<close> emits.\<close>

definition length_bytes :: "nat \<Rightarrow> byte list" where
  "length_bytes len =
     (if len \<le> 125 then [of_nat len]
      else if len \<le> 65535 then 126 # be_bytes 2 len
      else 127 # be_bytes 8 len)"

text \<open>
  The part of \<^verbatim>\<open>read_next_message\<close> after the length is known: the 4 mask bytes, the
  payload of \<open>n\<close> bytes, the unmasking loop.
\<close>

definition frame_body :: "nat \<Rightarrow> byte list \<Rightarrow> (error + byte list) \<times> byte list" where
  "frame_body n s =
     (let (masks, s3) = rfile_read 4 s; (payload, s4) = rfile_read n s3
      in (unmask masks payload [], s4))"

subsection \<open>Python string operations\<close>

text \<open>
  The \<^verbatim>\<open>str\<close> methods the script uses, on \<open>string\<close>. Whitespace is what
  \<^verbatim>\<open>str.isspace\<close> accepts in the C locale: space, tab, newline, carriage return,
  vertical tab, form feed.
\<close>

definition nl :: char where
  "nl = CHR 0x0A"

definition cr :: char where
  "cr = CHR 0x0D"

definition py_isspace :: "char \<Rightarrow> bool" where
  "py_isspace c = (c \<in> set [CHR '' '', CHR 0x09, CHR 0x0A, CHR 0x0D, CHR 0x0B, CHR 0x0C])"

text \<open>\<^verbatim>\<open>s.strip()\<close> and \<^verbatim>\<open>s.strip(chars)\<close>.\<close>

definition strip_where :: "(char \<Rightarrow> bool) \<Rightarrow> string \<Rightarrow> string" where
  "strip_where P s = rev (dropWhile P (rev (dropWhile P s)))"

definition py_strip :: "string \<Rightarrow> string" where
  "py_strip s = strip_where py_isspace s"

definition strip_nl :: "string \<Rightarrow> string" where
  "strip_nl s = strip_where (\<lambda>c. c = nl) s"

text \<open>\<^verbatim>\<open>s.startswith(p)\<close>.\<close>

definition starts_with :: "string \<Rightarrow> string \<Rightarrow> bool" where
  "starts_with p s = (take (length p) s = p)"

text \<open>\<^verbatim>\<open>s.lower()\<close>: the ASCII capitals become small letters.\<close>

definition lower_char :: "char \<Rightarrow> char" where
  "lower_char c =
     (let n = (of_char c :: nat) in if 65 \<le> n \<and> n \<le> 90 then char_of (n + 32) else c)"

definition py_lower :: "string \<Rightarrow> string" where
  "py_lower s = map lower_char s"

text \<open>\<^verbatim>\<open>s.split()\<close>: the maximal runs of characters that are not whitespace.\<close>

fun split_from :: "string \<Rightarrow> string \<Rightarrow> string list" where
  "split_from cur [] = (if cur = [] then [] else [cur])"
| "split_from cur (c # cs) =
     (if py_isspace c then (if cur = [] then split_from [] cs else cur # split_from [] cs)
      else split_from (cur @ [c]) cs)"

definition py_split :: "string \<Rightarrow> string list" where
  "py_split s = split_from [] s"

text \<open>
  \<^verbatim>\<open>s.find(c, start)\<close> for \<open>start \<ge> 0\<close>: the first index from \<open>start\<close> on that
  holds \<open>c\<close>; \<open>None\<close> stands for Python's \<open>-1\<close>. \<^verbatim>\<open>s.count(c)\<close>.
\<close>

definition py_find :: "char \<Rightarrow> nat \<Rightarrow> string \<Rightarrow> nat option" where
  "py_find c start s =
     (let k = length (takeWhile (\<lambda>x. x \<noteq> c) (drop start s))
      in if start + k < length s then Some (start + k) else None)"

definition py_count :: "char \<Rightarrow> string \<Rightarrow> nat" where
  "py_count c s = length (filter (\<lambda>x. x = c) s)"

text \<open>
  The slice \<^verbatim>\<open>s[a:b]\<close> for \<open>a, b \<ge> 0\<close>, and \<^verbatim>\<open>s[a:None]\<close>, which runs to the end.
  Slices never raise: positions past the end are clipped.
\<close>

definition py_slice :: "nat \<Rightarrow> nat option \<Rightarrow> string \<Rightarrow> string" where
  "py_slice a b s = (case b of None \<Rightarrow> drop a s | Some e \<Rightarrow> take (e - a) (drop a s))"

text \<open>
  \<^verbatim>\<open>s.split(":", 1)\<close>: the text before the first colon and the text after it, or the
  whole text alone when there is no colon; unpacking that into \<^verbatim>\<open>(name, data)\<close>
  raises \<^verbatim>\<open>ValueError\<close>.
\<close>

definition split_colon :: "string \<Rightarrow> error + string \<times> string" where
  "split_colon s =
     (case py_find CHR '':'' 0 s of
        None \<Rightarrow> Inl ValueError
      | Some i \<Rightarrow> Inr (take i s, drop (Suc i) s))"

text \<open>
  \<^verbatim>\<open>int(s)\<close> on a token without whitespace: an optional sign and at least one decimal
  digit; anything else raises \<^verbatim>\<open>ValueError\<close>.
\<close>

definition is_digit :: "char \<Rightarrow> bool" where
  "is_digit c = (48 \<le> (of_char c :: nat) \<and> (of_char c :: nat) \<le> 57)"

definition digits_value :: "string \<Rightarrow> int" where
  "digits_value ds = foldl (\<lambda>acc c. acc * 10 + (int (of_char c) - 48)) 0 ds"

definition py_int :: "string \<Rightarrow> error + int" where
  "py_int s =
     (let (sgn, ds) =
            (case s of
               [] \<Rightarrow> (1, [])
             | c # r \<Rightarrow> if c = CHR ''-'' then (- 1, r) else if c = CHR ''+'' then (1, r) else (1, s))
      in if ds \<noteq> [] \<and> list_all is_digit ds then Inr (sgn * digits_value ds)
         else Inl ValueError)"

text \<open>
  A file as text: \<^verbatim>\<open>readline()\<close> gives the next line with its newline (the rest of
  the text when no newline is left, the empty string at the end) and \<^verbatim>\<open>readlines()\<close>
  all lines that remain.
\<close>

definition readline :: "string \<Rightarrow> string \<times> string" where
  "readline s =
     (case py_find nl 0 s of
        None \<Rightarrow> (s, [])
      | Some i \<Rightarrow> (take (Suc i) s, drop (Suc i) s))"

fun readlines_from :: "string \<Rightarrow> string \<Rightarrow> string list" where
  "readlines_from cur [] = (if cur = [] then [] else [cur])"
| "readlines_from cur (c # cs) =
     (if c = nl then (cur @ [c]) # readlines_from [] cs else readlines_from (cur @ [c]) cs)"

definition readlines :: "string \<Rightarrow> string list" where
  "readlines s = readlines_from [] s"

subsection \<open>ProcNetDev: the interface counter table\<close>

text \<open>
  A Python \<^verbatim>\<open>dict\<close> is an association list with one entry for each key;
  \<^verbatim>\<open>d[k] = v\<close> is \<open>AList.update k v d\<close> and a lookup is \<open>map_of d k\<close>.
  \<open>table\<close> is \<^verbatim>\<open>self.data\<close>: interface name, then section name, then label.
\<close>

type_synonym fields = "(string \<times> int) list"
type_synonym groups = "(string \<times> fields) list"
type_synonym table = "(string \<times> groups) list"

text \<open>The tuples of \<^verbatim>\<open>sections\<close>: start, position of the closing pipe, name.\<close>

type_synonym sect = "nat \<times> nat option \<times> string"

text \<open>
  The \<^verbatim>\<open>while position:\<close> loop of \<^verbatim>\<open>update\<close>, by the value of
  \<^verbatim>\<open>last_position\<close> with which its body starts. The loop goes on while \<open>position\<close>
  is true: it ends when no pipe is left (\<open>None\<close>) and also when the pipe found is at
  position 0.
\<close>

function section_loop :: "string \<Rightarrow> nat \<Rightarrow> sect list" where
  "section_loop headerline last_position =
     (case py_find CHR ''|'' last_position headerline of
        None \<Rightarrow>
          [(last_position, None, py_lower (py_strip (py_slice last_position None headerline)))]
      | Some position \<Rightarrow>
          (last_position, Some position,
             py_lower (py_strip (py_slice last_position (Some position) headerline)))
          # (if position = 0 then [] else section_loop headerline (position + 1)))"
  by pat_completeness auto
termination
  by (relation "measure (\<lambda>(h, l). length h - l)")
     (auto simp: py_find_def Let_def split: if_splits)

text \<open>\<^verbatim>\<open>sections.pop(0)\<close> on a list that the loop has made non-empty.\<close>

definition sections_of :: "string \<Rightarrow> sect list" where
  "sections_of headerline = tl (section_loop headerline 0)"

definition labels_of :: "sect list \<Rightarrow> string \<Rightarrow> string list list" where
  "labels_of sections labelline =
     map (\<lambda>sec. py_split (py_slice (fst sec) (fst (snd sec)) labelline)) sections"

text \<open>
  The inner loop over the labels of one section: \<open>tmp\<close> is the section's dict and
  \<open>absolute_position\<close> runs on through the sections. \<^verbatim>\<open>data[absolute_position]\<close>
  raises \<^verbatim>\<open>IndexError\<close> past the end of the row and \<^verbatim>\<open>int\<close> raises
  \<^verbatim>\<open>ValueError\<close>.
\<close>

fun label_loop ::
  "string list \<Rightarrow> string list \<Rightarrow> nat \<Rightarrow> fields \<Rightarrow> error + fields \<times> nat" where
  "label_loop [] data absolute_position tmp = Inr (tmp, absolute_position)"
| "label_loop (label # ls) data absolute_position tmp =
     (if absolute_position < length data then
        (case py_int (data ! absolute_position) of
           Inl e \<Rightarrow> Inl e
         | Inr v \<Rightarrow> label_loop ls data (absolute_position + 1) (AList.update label v tmp))
      else Inl IndexError)"

text \<open>
  The loop over the sections of one row, each with its labels (\<open>labels\<close> has one entry
  for each section, by \<open>labels_of\<close>). \<open>row\<close> is \<^verbatim>\<open>interfaces[name]\<close>.
\<close>

fun section_fill ::
  "(sect \<times> string list) list \<Rightarrow> string list \<Rightarrow> nat \<Rightarrow> groups \<Rightarrow> error + groups" where
  "section_fill [] data absolute_position row = Inr row"
| "section_fill ((sec, ls) # rest) data absolute_position row =
     (case label_loop ls data absolute_position [] of
        Inl e \<Rightarrow> Inl e
      | Inr (tmp, absolute_position') \<Rightarrow>
          section_fill rest data absolute_position'
            (AList.update (snd (snd sec)) tmp row))"

text \<open>
  The loop over the data rows. \<^verbatim>\<open>interfaces[name] = {}\<close> and the filling of that dict
  through \<^verbatim>\<open>interfaces[name][...] = tmp\<close> are one update of \<open>interfaces\<close> with the
  filled dict; \<open>interfaces\<close> is local, so nothing sees it in between.
\<close>

fun row_loop ::
  "(sect \<times> string list) list \<Rightarrow> string list \<Rightarrow> table \<Rightarrow> error + table" where
  "row_loop sl [] interfaces = Inr interfaces"
| "row_loop sl (info # infos) interfaces =
     (case split_colon (strip_nl info) of
        Inl e \<Rightarrow> Inl e
      | Inr (name, data) \<Rightarrow>
          (case section_fill sl (py_split data) 0 [] of
             Inl e \<Rightarrow> Inl e
           | Inr row \<Rightarrow> row_loop sl infos (AList.update (py_strip name) row interfaces)))"

text \<open>
  The parse of \<^verbatim>\<open>update\<close>, from the text of \<^verbatim>\<open>/proc/net/dev\<close> to the local
  \<open>interfaces\<close>.
\<close>

definition parse_table :: "string \<Rightarrow> error + table" where
  "parse_table text =
     (let (headerline, rest1) = readline text in
      if py_count CHR ''|'' headerline = 0 then Inl ValueError
      else
        let sections = sections_of headerline;
            (line2, rest2) = readline rest1;
            labels = labels_of sections (strip_nl line2)
        in row_loop (zip sections labels) (readlines rest2) [])"

text \<open>
  The object: \<^verbatim>\<open>self.data\<close>, \<^verbatim>\<open>self.updated\<close> and \<^verbatim>\<open>self.auto_update\<close>.
  \<^verbatim>\<open>update\<close> takes what the file holds at this read and the clock's
  \<^verbatim>\<open>datetime.utcnow()\<close>; it assigns \<^verbatim>\<open>self.data\<close> and \<^verbatim>\<open>self.updated\<close> in its last
  two lines.
\<close>

record procnetdev =
  data :: "table option"
  updated :: "real option"
  auto_update :: bool

definition procnetdev_update :: "string \<Rightarrow> real \<Rightarrow> procnetdev \<Rightarrow> (error + unit) \<times> procnetdev" where
  "procnetdev_update text utcnow self =
     (case parse_table text of
        Inl e \<Rightarrow> (Inl e, self)
      | Inr interfaces \<Rightarrow> (Inr (), self\<lparr>data := Some interfaces, updated := Some utcnow\<rparr>))"

text \<open>
  \<^verbatim>\<open>__init__\<close>: the three attributes, then a first \<^verbatim>\<open>update\<close>. The class
  \<^verbatim>\<open>WebSocketsHandler\<close> makes its \<^verbatim>\<open>pnd\<close> this way, with \<^verbatim>\<open>auto_update\<close> true,
  when the module is loaded.
\<close>

definition procnetdev_init :: "string \<Rightarrow> real \<Rightarrow> bool \<Rightarrow> (error + unit) \<times> procnetdev" where
  "procnetdev_init text utcnow auto =
     procnetdev_update text utcnow \<lparr>data = None, updated = None, auto_update = auto\<rparr>"

text \<open>\<^verbatim>\<open>d[key]\<close> on a dict: \<^verbatim>\<open>KeyError\<close> when the key is missing.\<close>

definition dict_get :: "('k \<times> 'v) list \<Rightarrow> 'k \<Rightarrow> error + 'v" where
  "dict_get d k = (case map_of d k of None \<Rightarrow> Inl KeyError | Some v \<Rightarrow> Inr v)"

text \<open>
  \<^verbatim>\<open>__getitem__\<close>. (\<^verbatim>\<open>self.data\<close> is \<open>None\<close> only before the first update, which
  the constructor runs; subscripting \<open>None\<close> raises \<^verbatim>\<open>TypeError\<close>.)
\<close>

definition procnetdev_getitem ::
  "string \<Rightarrow> real \<Rightarrow> string \<Rightarrow> procnetdev \<Rightarrow> (error + groups) \<times> procnetdev" where
  "procnetdev_getitem text utcnow key self =
     (let (r, self') = (if auto_update self then procnetdev_update text utcnow self else (Inr (), self))
      in case r of
           Inl e \<Rightarrow> (Inl e, self')
         | Inr _ \<Rightarrow>
             (case data self' of
                None \<Rightarrow> (Inl TypeError, self')
              | Some d \<Rightarrow> (dict_get d key, self')))"

subsection \<open>The table as the specification words it\<close>





















subsection \<open>The handler: rates, the tick, the scheduler\<close>

text \<open>
  \<^verbatim>\<open>self.tx\<close>, \<^verbatim>\<open>self.rx\<close> and \<^verbatim>\<open>self.ts\<close>. The class gives all three the value 0,
  which a handler reads until its first \<^verbatim>\<open>update\<close> has assigned them.
\<close>

record rate_state =
  tx :: int
  rx :: int
  ts :: real

definition initial_rate :: rate_state where
  "initial_rate = \<lparr>tx = 0, rx = 0, ts = 0\<rparr>"

text \<open>An integer divided by a float: \<^verbatim>\<open>ZeroDivisionError\<close> when the float is zero.\<close>

definition py_div :: "int \<Rightarrow> real \<Rightarrow> error + real" where
  "py_div a b = (if b = 0 then Inl ZeroDivisionError else Inr (real_of_int a / b))"

text \<open>
  Lines 239 to 248 of \<^verbatim>\<open>update\<close>: the differences to the stored reading, the two
  rates, then the assignments of the new reading. The result is
  \<open>(tx_rate, rx_rate)\<close>.
\<close>

definition compute_rates ::
  "int \<Rightarrow> int \<Rightarrow> real \<Rightarrow> rate_state \<Rightarrow> (error + real \<times> real) \<times> rate_state" where
  "compute_rates new_tx new_rx new_ts self =
     (let diff_tx = new_tx - tx self;
          diff_rx = new_rx - rx self;
          diff_ts = new_ts - ts self
      in case py_div diff_tx diff_ts of
           Inl e \<Rightarrow> (Inl e, self)
         | Inr tx_rate \<Rightarrow>
             (case py_div diff_rx diff_ts of
                Inl e \<Rightarrow> (Inl e, self)
              | Inr rx_rate \<Rightarrow>
                  (Inr (tx_rate, rx_rate), \<lparr>tx = new_tx, rx = new_rx, ts = new_ts\<rparr>)))"

text \<open>The dict that \<^verbatim>\<open>update\<close> hands to \<^verbatim>\<open>json.dumps\<close>.\<close>

record snapshot =
  timestamp :: real
  uptime :: real
  cpu :: "string list"
  transmit :: int
  receive :: int
  tx_rate :: real
  rx_rate :: real
  mem_free :: int
  mem_total :: int

text \<open>
  Library functions whose results the script only passes on, taken as parameters:
  \<^verbatim>\<open>json.dumps\<close>, the raw digest of \<^verbatim>\<open>hashlib.sha1\<close> and \<^verbatim>\<open>base64.b64encode\<close>.
\<close>

record lib =
  json_dumps :: "snapshot \<Rightarrow> byte list"
  sha1 :: "string \<Rightarrow> string"
  b64encode :: "string \<Rightarrow> string"

text \<open>
  What the system gives at one tick: the outcome of reading \<^verbatim>\<open>/proc/uptime\<close> (the
  float or the exception), the first line of \<^verbatim>\<open>/proc/loadavg\<close>, the dict
  \<^verbatim>\<open>memory\<close> that the loop over \<^verbatim>\<open>/proc/meminfo\<close> builds, the text of
  \<^verbatim>\<open>/proc/net/dev\<close> at the read for \<open>tx\<close> and at the read for \<open>rx\<close>, and the
  clock at the calls of \<^verbatim>\<open>datetime.utcnow()\<close> and \<^verbatim>\<open>time.time()\<close>.
\<close>

record world =
  uptime_file :: "error + real"
  loadavg_file :: "error + string"
  meminfo_file :: "error + (string \<times> int) list"
  netdev_tx :: string
  netdev_rx :: string
  utcnow :: real
  time_ts :: real
  time_stamp :: real
  time_enter :: real

text \<open>
  The scheduler \<^verbatim>\<open>sched.scheduler(time.time, time.sleep)\<close>: its queue holds the
  events by time; every event of this program has priority 1 and the action
  \<^verbatim>\<open>self.update\<close>. \<^verbatim>\<open>enter(delay, priority, ...)\<close> queues an event at now plus the
  delay.
\<close>

type_synonym event = "real \<times> nat"

definition sched_enter :: "real \<Rightarrow> real \<Rightarrow> nat \<Rightarrow> event list \<Rightarrow> event list" where
  "sched_enter now delay priority q = insort_key fst (now + delay, priority) q"

text \<open>
  A handler with what its class shares: \<^verbatim>\<open>handshake_done\<close> (\<open>False\<close> is 0; later the
  number that \<^verbatim>\<open>send\<close> returned), the rate state, the \<^verbatim>\<open>ProcNetDev\<close> object, the
  scheduler's queue, the socket, and the system's readings at the ticks to come.
\<close>

record handler =
  handshake_done :: nat
  rate :: rate_state
  pnd :: procnetdev
  queue :: "event list"
  request :: conn
  env :: "world list"

definition bind_err :: "error + 'a \<Rightarrow> ('a \<Rightarrow> error + 'b) \<Rightarrow> error + 'b" where
  "bind_err m f = (case m of Inl e \<Rightarrow> Inl e | Inr x \<Rightarrow> f x)"

text \<open>\<^verbatim>\<open>xs.pop(-1)\<close>, for the list it leaves.\<close>

definition pop_last :: "'a list \<Rightarrow> error + 'a list" where
  "pop_last xs = (if xs = [] then Inl IndexError else Inr (butlast xs))"

text \<open>Lines 217 to 233 of \<^verbatim>\<open>update\<close>: uptime, load averages, memory.\<close>

definition read_simple :: "world \<Rightarrow> error + real \<times> string list \<times> (string \<times> int) list" where
  "read_simple w =
     bind_err (uptime_file w) (\<lambda>uptime_seconds.
     bind_err (loadavg_file w) (\<lambda>line.
     bind_err (pop_last (py_split line)) (\<lambda>cpu1.
     bind_err (pop_last cpu1) (\<lambda>cpu.
     bind_err (meminfo_file w) (\<lambda>memory.
       Inr (uptime_seconds, cpu, memory))))))"

text \<open>
  Lines 235 and 236: \<^verbatim>\<open>self.pnd['vlan2']['transmit']['bytes']\<close>, then the same for
  \<^verbatim>\<open>'receive'\<close>; each \<^verbatim>\<open>self.pnd[...]\<close> reads and parses the file again.
\<close>

definition lookup_bytes :: "groups \<Rightarrow> string \<Rightarrow> error + int" where
  "lookup_bytes g direction = bind_err (dict_get g direction) (\<lambda>f. dict_get f ''bytes'')"

definition read_counters :: "world \<Rightarrow> procnetdev \<Rightarrow> (error + int \<times> int) \<times> procnetdev" where
  "read_counters w p =
     (case procnetdev_getitem (netdev_tx w) (utcnow w) ''vlan2'' p of
        (Inl e, p1) \<Rightarrow> (Inl e, p1)
      | (Inr g, p1) \<Rightarrow>
          (case lookup_bytes g ''transmit'' of
             Inl e \<Rightarrow> (Inl e, p1)
           | Inr new_tx \<Rightarrow>
               (case procnetdev_getitem (netdev_rx w) (utcnow w) ''vlan2'' p1 of
                  (Inl e, p2) \<Rightarrow> (Inl e, p2)
                | (Inr g2, p2) \<Rightarrow>
                    (case lookup_bytes g2 ''receive'' of
                       Inl e \<Rightarrow> (Inl e, p2)
                     | Inr new_rx \<Rightarrow> (Inr (new_tx, new_rx), p2)))))"

text \<open>
  \<^verbatim>\<open>WebSocketsHandler.update\<close>, one tick, in the order of the source: the simple
  readers, the counters, the rates and their assignment, the message (whose dict
  looks up \<^verbatim>\<open>memory['MemFree']\<close> and \<^verbatim>\<open>memory['MemTotal']\<close>), \<^verbatim>\<open>send_message\<close>,
  and as the last statement \<^verbatim>\<open>sc.enter(0.5, 1, self.update, (sc,))\<close>. An exception
  leaves the handler as the statements before it have made it.
\<close>

definition ws_update :: "lib \<Rightarrow> world \<Rightarrow> handler \<Rightarrow> (error + unit) \<times> handler" where
  "ws_update L w self =
     (case read_simple w of
        Inl e \<Rightarrow> (Inl e, self)
      | Inr (uptime_seconds, cpu_list, memory) \<Rightarrow>
     (case read_counters w (pnd self) of
        (Inl e, p) \<Rightarrow> (Inl e, self\<lparr>pnd := p\<rparr>)
      | (Inr (new_tx, new_rx), p) \<Rightarrow>
     (case compute_rates new_tx new_rx (time_ts w) (rate self) of
        (Inl e, r) \<Rightarrow> (Inl e, self\<lparr>pnd := p, rate := r\<rparr>)
      | (Inr (txr, rxr), r) \<Rightarrow>
     (let self1 = self\<lparr>pnd := p, rate := r\<rparr> in
      case bind_err (dict_get memory ''MemFree'') (\<lambda>mfree.
           bind_err (dict_get memory ''MemTotal'') (\<lambda>mtotal. Inr (mfree, mtotal))) of
        Inl e \<Rightarrow> (Inl e, self1)
      | Inr (mfree, mtotal) \<Rightarrow>
     (let message = json_dumps L
            \<lparr>timestamp = time_stamp w, uptime = uptime_seconds, cpu = cpu_list,
             transmit = new_tx, receive = new_rx, tx_rate = txr, rx_rate = rxr,
             mem_free = mfree, mem_total = mtotal\<rparr>
      in case send_message message (request self1) of
           (Inl e, c) \<Rightarrow> (Inl e, self1\<lparr>request := c\<rparr>)
         | (Inr _, c) \<Rightarrow>
             (Inr (), self1\<lparr>request := c,
                            queue := sched_enter (time_enter w) (1 / 2) 1 (queue self1)\<rparr>))))))"

text \<open>
  \<^verbatim>\<open>self.s.run()\<close>: while the queue holds an event, take the earliest out of the
  queue and call its action, \<^verbatim>\<open>update\<close>, with the system's next readings; an
  exception of the action leaves \<^verbatim>\<open>run\<close>. The loop returns when the queue is empty.
  \<open>n\<close> bounds the ticks; \<open>None\<close> says that the loop is still running after \<open>n\<close>
  ticks or when the readings of \<open>env\<close> are used up.
\<close>

fun sched_run :: "lib \<Rightarrow> nat \<Rightarrow> handler \<Rightarrow> ((error + unit) \<times> handler) option" where
  "sched_run L 0 self = (if queue self = [] then Some (Inr (), self) else None)"
| "sched_run L (Suc n) self =
     (case queue self of
        [] \<Rightarrow> Some (Inr (), self)
      | ev # q \<Rightarrow>
          (case env self of
             [] \<Rightarrow> None
           | w # ws \<Rightarrow>
               (case ws_update L w (self\<lparr>queue := q, env := ws\<rparr>) of
                  (Inl e, self') \<Rightarrow> Some (Inl e, self')
                | (Inr _, self') \<Rightarrow> sched_run L n self')))"

subsection \<open>The handshake and the handler's loop\<close>

text \<open>
  The socket gives and takes bytes, the handshake works on text: \<open>text_of\<close> and
  \<open>bytes_of\<close> go between the two views of a Python \<^verbatim>\<open>str\<close>.
\<close>

definition text_of :: "byte list \<Rightarrow> string" where
  "text_of bs = map (\<lambda>b. char_of (unat b)) bs"

definition bytes_of :: "string \<Rightarrow> byte list" where
  "bytes_of s = map (\<lambda>c. of_nat (of_char c)) s"

text \<open>
  \<^verbatim>\<open>self.request.recv(n)\<close>: the next piece of what the peer has sent, at most \<open>n\<close>
  bytes of it; the empty string once the peer has closed.
\<close>

definition request_recv :: "nat \<Rightarrow> conn \<Rightarrow> byte list \<times> conn" where
  "request_recv n c =
     (case inbox c of
        [] \<Rightarrow> ([], c)
      | chunk # rest \<Rightarrow>
          if length chunk \<le> n then (chunk, c\<lparr>inbox := rest\<rparr>)
          else (take n chunk, c\<lparr>inbox := drop n chunk # rest\<rparr>))"

text \<open>
  \<^verbatim>\<open>data.split('\r\n', 1)[1]\<close>: the text after the first CR LF; \<^verbatim>\<open>IndexError\<close> when
  there is none.
\<close>

fun after_crlf :: "string \<Rightarrow> string option" where
  "after_crlf (a # b # r) = (if a = cr \<and> b = nl then Some r else after_crlf (b # r))"
| "after_crlf [a] = None"
| "after_crlf [] = None"

text \<open>
  \<^verbatim>\<open>mimetools.Message(StringIO(text))\<close>, that is the header loop of
  \<^verbatim>\<open>rfc822.Message.readheaders\<close>, over the lines of the text: a leading
  \<^verbatim>\<open>From \<close> line is skipped, a line that starts with a blank or a tab continues the
  header before it, an empty line ends the headers, a line with a colon is a header
  whose name is put in small letters (and ignored when the name is empty), and any
  other line ends the headers. \<open>headerseen\<close> is the name of the last header line.
\<close>

fun readheaders ::
  "bool \<Rightarrow> string \<Rightarrow> string list \<Rightarrow> (string \<times> string) list \<Rightarrow> (string \<times> string) list" where
  "readheaders firstline headerseen [] d = d"
| "readheaders firstline headerseen (line # lines) d =
     (if firstline \<and> starts_with ''From '' line then readheaders firstline headerseen lines d
      else if headerseen \<noteq> [] \<and> (starts_with '' '' line \<or> starts_with [CHR 0x09] line) then
        readheaders False headerseen lines
          (AList.update headerseen
             (py_strip ((case map_of d headerseen of None \<Rightarrow> [] | Some v \<Rightarrow> v)
                        @ [nl, CHR '' ''] @ py_strip line)) d)
      else if line = [cr, nl] \<or> line = [nl] then d
      else
        (case py_find CHR '':'' 0 line of
           None \<Rightarrow> d
         | Some i \<Rightarrow>
             (let name = py_lower (take i line) in
              if name \<noteq> [] then
                readheaders False name lines (AList.update name (py_strip (drop (Suc i) line)) d)
              else readheaders False name lines d)))"

definition message_of :: "string \<Rightarrow> (string \<times> string) list" where
  "message_of text = readheaders True [] (readlines text) []"

text \<open>\<^verbatim>\<open>headers.get(name, None)\<close> and \<^verbatim>\<open>headers[name]\<close>.\<close>

definition message_get :: "(string \<times> string) list \<Rightarrow> string \<Rightarrow> string option" where
  "message_get headers name = map_of headers (py_lower name)"

definition message_getitem :: "(string \<times> string) list \<Rightarrow> string \<Rightarrow> error + string" where
  "message_getitem headers name = dict_get headers (py_lower name)"

text \<open>
  \<^verbatim>\<open>hexdigest()\<close> writes the digest in hexadecimal digits, two for each byte, with
  small letters; \<^verbatim>\<open>.decode('hex')\<close> reads such a text back and raises \<^verbatim>\<open>TypeError\<close>
  on an odd length or on a character that is no hexadecimal digit.
\<close>

definition hex_digit :: "nat \<Rightarrow> char" where
  "hex_digit n = ''0123456789abcdef'' ! n"

definition hexlify :: "string \<Rightarrow> string" where
  "hexlify s =
     concat (map (\<lambda>c. [hex_digit (of_char c div 16), hex_digit (of_char c mod 16)]) s)"

definition hex_value :: "char \<Rightarrow> nat option" where
  "hex_value c =
     (let n = (of_char c :: nat) in
      if 48 \<le> n \<and> n \<le> 57 then Some (n - 48)
      else if 97 \<le> n \<and> n \<le> 102 then Some (n - 87)
      else if 65 \<le> n \<and> n \<le> 70 then Some (n - 55)
      else None)"

fun unhexlify :: "string \<Rightarrow> error + string" where
  "unhexlify [] = Inr []"
| "unhexlify [a] = Inl TypeError"
| "unhexlify (a # b # r) =
     (case hex_value a of
        None \<Rightarrow> Inl TypeError
      | Some x \<Rightarrow>
          (case hex_value b of
             None \<Rightarrow> Inl TypeError
           | Some y \<Rightarrow>
               (case unhexlify r of
                  Inl e \<Rightarrow> Inl e
                | Inr s \<Rightarrow> Inr (char_of (16 * x + y) # s))))"

definition magic :: string where
  "magic = ''258EAFA5-E914-47DA-95CA-C5AB0DC85B11''"

text \<open>
  \<^verbatim>\<open>digest = b64encode(sha1(key + self.magic).hexdigest().decode('hex'))\<close>.
\<close>

definition accept_digest :: "lib \<Rightarrow> string \<Rightarrow> error + string" where
  "accept_digest L key =
     bind_err (unhexlify (hexlify (sha1 L (key @ magic)))) (\<lambda>raw. Inr (b64encode L raw))"

definition crlf :: string where
  "crlf = [cr, nl]"

definition response_of :: "string \<Rightarrow> string" where
  "response_of digest =
     ''HTTP/1.1 101 Switching Protocols'' @ crlf
     @ ''Upgrade: websocket'' @ crlf
     @ ''Connection: Upgrade'' @ crlf
     @ ''Sec-WebSocket-Accept: '' @ digest @ crlf @ crlf"

text \<open>
  \<^verbatim>\<open>handshake\<close> from the data received to the response: \<open>Inr None\<close> is the
  \<^verbatim>\<open>return\<close> that the method takes when the \<^verbatim>\<open>Upgrade\<close> header is not
  \<^verbatim>\<open>websocket\<close>.
\<close>

definition handshake_response :: "lib \<Rightarrow> string \<Rightarrow> error + string option" where
  "handshake_response L received =
     (case after_crlf (py_strip received) of
        None \<Rightarrow> Inl IndexError
      | Some text \<Rightarrow>
          (let headers = message_of text in
           if message_get headers ''Upgrade'' \<noteq> Some ''websocket'' then Inr None
           else
             bind_err (message_getitem headers ''Sec-WebSocket-Key'') (\<lambda>key.
             bind_err (accept_digest L key) (\<lambda>digest.
               Inr (Some (response_of digest))))))"

text \<open>
  \<^verbatim>\<open>handshake\<close>: receive, answer, set \<^verbatim>\<open>handshake_done\<close> to what \<^verbatim>\<open>send\<close> returns,
  and run the scheduler from inside the method. \<open>n\<close> bounds the ticks of that run.
\<close>

definition handshake :: "lib \<Rightarrow> nat \<Rightarrow> handler \<Rightarrow> ((error + unit) \<times> handler) option" where
  "handshake L n self =
     (let (received, c1) = request_recv 1024 (request self);
          self1 = self\<lparr>request := c1\<rparr>
      in case handshake_response L (text_of received) of
           Inl e \<Rightarrow> Some (Inl e, self1)
         | Inr None \<Rightarrow> Some (Inr (), self1)
         | Inr (Some response) \<Rightarrow>
             (case request_send (bytes_of response) c1 of
                (Inl e, c2) \<Rightarrow> Some (Inl e, self1\<lparr>request := c2\<rparr>)
              | (Inr sent, c2) \<Rightarrow>
                  sched_run L n (self1\<lparr>request := c2, handshake_done := sent\<rparr>)))"

text \<open>
  \<^verbatim>\<open>read_next_message\<close> on the handler: \<^verbatim>\<open>self.rfile\<close> reads from what the peer
  sends.
\<close>

definition handler_read :: "handler \<Rightarrow> (error + byte list) \<times> handler" where
  "handler_read self =
     (let (r, rest) = read_next_message (concat (inbox (request self)))
      in (r, self\<lparr>request := (request self)\<lparr>inbox := [rest]\<rparr>\<rparr>))"

text \<open>
  \<^verbatim>\<open>setup\<close> (at time \<open>now\<close>) and \<^verbatim>\<open>handle\<close>. The loop of \<^verbatim>\<open>handle\<close> is
  \<^verbatim>\<open>while True\<close>: only an exception ends it, which is then the result. \<open>k\<close> bounds
  the rounds of the loop and \<open>n\<close> the ticks of each scheduler run; \<open>None\<close> says that
  the handler is still running when a bound is reached.
\<close>

definition ws_setup :: "real \<Rightarrow> handler \<Rightarrow> handler" where
  "ws_setup now self =
     self\<lparr>handshake_done := 0, queue := sched_enter now (1 / 2) 1 (queue self)\<rparr>"

fun handle :: "lib \<Rightarrow> nat \<Rightarrow> nat \<Rightarrow> handler \<Rightarrow> (error \<times> handler) option" where
  "handle L n 0 self = None"
| "handle L n (Suc k) self =
     (if handshake_done self = 0 then
        (case handshake L n self of
           None \<Rightarrow> None
         | Some (Inl e, self') \<Rightarrow> Some (e, self')
         | Some (Inr _, self') \<Rightarrow> handle L n k self')
      else
        (case handler_read self of
           (Inl e, self') \<Rightarrow> Some (e, self')
         | (Inr _, self') \<Rightarrow> handle L n k self'))"

subsection \<open>Concrete inputs\<close>


definition vlan_table :: string where
  "vlan_table =
     ''Inter-|   Receive        |  Transmit'' @ [nl] @
     '' face |bytes packets errs|bytes packets errs'' @ [nl] @
     '' vlan2: 7000 70 0 9000 90 0'' @ [nl]"


definition broken_table :: string where
  "broken_table = ''Inter-   Receive    Transmit'' @ [nl]"

text \<open>
  Stand-ins for the three library parameters, to run concrete sessions; what they
  return is not what the libraries return, and the sessions below are about what the
  handler does around them.
\<close>

definition stub_lib :: lib where
  "stub_lib =
     \<lparr>json_dumps = (\<lambda>snap. bytes_of ''{}''), sha1 = (\<lambda>s. take 20 s), b64encode = (\<lambda>s. s)\<rparr>"

text \<open>The system at a tick where every read succeeds, and where the table is broken.\<close>

definition good_world :: world where
  "good_world =
     \<lparr>uptime_file = Inr 3600, loadavg_file = Inr ''0.10 0.20 0.30 1/50 1234'',
      meminfo_file = Inr [(''MemTotal'', 2000), (''MemFree'', 1000)],
      netdev_tx = vlan_table, netdev_rx = vlan_table,
      utcnow = 100, time_ts = 100, time_stamp = 100, time_enter = 100\<rparr>"

definition broken_world :: world where
  "broken_world = good_world\<lparr>netdev_tx := broken_table, netdev_rx := broken_table\<rparr>"

text \<open>The \<^verbatim>\<open>ProcNetDev\<close> object as the class has made it, from a good table.\<close>

definition booted :: procnetdev where
  "booted = snd (procnetdev_init vlan_table 0 True)"

text \<open>
  A handler after a successful handshake, with its first tick queued, a table that
  is broken at that tick and good at the next.
\<close>

definition streaming :: handler where
  "streaming =
     \<lparr>handshake_done = 129, rate = initial_rate,
      pnd = booted,
      queue = [(1 / 2, 1)],
      request = \<lparr>peer_open = True, wire = [], inbox = []\<rparr>,
      env = [broken_world, good_world]\<rparr>"

text \<open>
  Two requests: one without an \<^verbatim>\<open>Upgrade\<close> header and one that asks for the
  upgrade. \<open>fresh\<close> is a handler before \<^verbatim>\<open>setup\<close> whose peer sends the first and then
  the second.
\<close>

definition plain_request :: string where
  "plain_request = ''GET / HTTP/1.1'' @ crlf @ ''Host: router'' @ crlf @ crlf"

definition upgrade_request :: string where
  "upgrade_request =
     ''GET / HTTP/1.1'' @ crlf @ ''Upgrade: websocket'' @ crlf
     @ ''Sec-WebSocket-Key: dGhlIHNhbXBsZSBub25jZQ=='' @ crlf @ crlf"

definition fresh :: handler where
  "fresh =
     \<lparr>handshake_done = 0, rate = initial_rate,
      pnd = booted,
      queue = [],
      request = \<lparr>peer_open = True, wire = [],
                 inbox = [bytes_of plain_request, bytes_of upgrade_request]\<rparr>,
      env = [good_world, broken_world]\<rparr>"

section \<open>Properties\<close>

subsection \<open>Frame codec\<close>

lemma be_value_snoc: "be_value (bs @ [b]) = be_value bs * 256 + unat b"
  by (simp add: be_value_def)

lemma be_value_be_bytes: "n < 256 ^ k \<Longrightarrow> be_value (be_bytes k n) = n"
proof (induction k arbitrary: n)
  case 0
  then show ?case by (simp add: be_value_def)
next
  case (Suc k)
  have "n div 256 < 256 ^ k"
    using Suc.prems by (simp add: less_mult_imp_div_less mult.commute)
  then have "be_value (be_bytes k (n div 256)) = n div 256"
    by (rule Suc.IH)
  moreover have "unat (of_nat (n mod 256) :: byte) = n mod 256"
    by (simp add: unat_of_nat)
  ultimately show ?case by (simp add: be_value_snoc)
qed

lemma length_be_bytes: "length (be_bytes k n) = k"
  by (induction k arbitrary: n) auto

lemma unmask_mask_from:
  "length key = 4 \<Longrightarrow>
   unmask key (map (\<lambda>(i, b). b XOR key ! (i mod 4))
                 (zip [length d..<length d + length p] p)) d = Inr (d @ p)"
proof (induction p arbitrary: d)
  case Nil
  then show ?case by simp
next
  case (Cons a p)
  have "[length d..<length d + length (a # p)]
        = length d # [length (d @ [a])..<length (d @ [a]) + length p]"
    by (simp add: upt_rec)
  then show ?case
    using Cons.IH [of "d @ [a]"] Cons.prems by (simp add: Let_def word_bw_assocs)
qed

lemma unmask_mask_payload:
  "length key = 4 \<Longrightarrow> unmask key (mask_payload key p) [] = Inr p"
  using unmask_mask_from [of key "[]" p] by (simp add: mask_payload_def)

lemma length_mask_payload: "length (mask_payload key p) = length p"
  by (simp add: mask_payload_def)

lemma and_127: "unat ((w :: byte) AND 127) = unat w mod 128"
proof -
  have "(127 :: byte) = mask 7"
    by (simp add: mask_eq_exp_minus_1)
  then have "w AND 127 = take_bit 7 w"
    by (simp add: take_bit_eq_mask)
  then have "unat (w AND 127) = take_bit 7 (unat w)"
    by (simp only: unsigned_take_bit_eq)
  then show ?thesis by (simp add: take_bit_eq_mod)
qed

lemma length_code_literal: "n \<le> 125 \<Longrightarrow> unat ((of_nat n :: byte) AND 127) = n"
  by (simp add: and_127 unat_of_nat)

lemma frame_body_masked:
  "length key = 4 \<Longrightarrow>
   frame_body (length p) (key @ mask_payload key p @ rest) = (Inr p, rest)"
  by (simp add: frame_body_def rfile_read_def length_mask_payload unmask_mask_payload)

lemma read_short:
  "unat (b AND 127) = n \<Longrightarrow> n < 126 \<Longrightarrow>
   read_next_message (ctl # b # s) = frame_body n s"
  by (simp add: read_next_message_def rfile_read_def frame_body_def)

lemma read_extended:
  "length bs = 2 \<Longrightarrow> read_next_message (ctl # 126 # bs @ s) = frame_body (be_value bs) s"
  by (simp add: read_next_message_def rfile_read_def frame_body_def struct_unpack_def)

lemma read_huge:
  "length bs = 8 \<Longrightarrow> read_next_message (ctl # 127 # bs @ s) = frame_body (be_value bs) s"
  by (simp add: read_next_message_def rfile_read_def frame_body_def struct_unpack_def)

text \<open>
  Claim C1. A frame made of any control byte, the three-tier encoding of the payload's
  length, a 4-byte mask and the payload XORed with the mask byte at its position
  modulo 4 is decoded by \<open>read_next_message\<close> to exactly the payload, and the bytes
  after the frame stay in the stream. The length is below \<open>2 ^ 64\<close>, as the length of
  every Python string is and as the 8-byte length field requires.
\<close>

theorem frame_round_trip:
  assumes k: "length key = 4" and n: "length payload < 2 ^ 64"
  shows "read_next_message
           (ctl # length_bytes (length payload) @ key @ mask_payload key payload @ rest)
         = (Inr payload, rest)"
proof -
  let ?n = "length payload"
  let ?s = "key @ mask_payload key payload @ rest"
  consider (small) "?n \<le> 125" | (mid) "126 \<le> ?n" "?n \<le> 65535" | (big) "65535 < ?n"
    by linarith
  then show ?thesis
  proof cases
    case small
    then have "read_next_message (ctl # of_nat ?n # ?s) = frame_body ?n ?s"
      by (intro read_short) (simp_all add: length_code_literal)
    then show ?thesis
      using small by (simp add: length_bytes_def frame_body_masked [OF k])
  next
    case mid
    have v: "be_value (be_bytes 2 ?n) = ?n"
      using mid by (intro be_value_be_bytes) simp
    have "read_next_message (ctl # 126 # be_bytes 2 ?n @ ?s)
          = frame_body (be_value (be_bytes 2 ?n)) ?s"
      by (rule read_extended) (rule length_be_bytes)
    then show ?thesis
      using mid by (simp only: v length_bytes_def frame_body_masked [OF k]) simp
  next
    case big
    have v: "be_value (be_bytes 8 ?n) = ?n"
      using n by (intro be_value_be_bytes) simp
    have "read_next_message (ctl # 127 # be_bytes 8 ?n @ ?s)
          = frame_body (be_value (be_bytes 8 ?n)) ?s"
      by (rule read_huge) (rule length_be_bytes)
    then show ?thesis
      using big by (simp only: v length_bytes_def frame_body_masked [OF k]) simp
  qed
qed

theorem frame_round_trip_witness:
  "length [1, 2, 3, 4 :: byte] = 4 \<and> length [72, 105 :: byte] < 2 ^ 64
   \<and> read_next_message [129, 2, 1, 2, 3, 4, 73, 107, 9] = (Inr [72, 105], [9])"
  using frame_round_trip [of "[1, 2, 3, 4]" "[72, 105]" 129 "[9]"]
  by (simp add: length_bytes_def mask_payload_def upt_rec)

text \<open>
  Claim C8. On an open connection \<open>send_message\<close> puts on the wire the byte 0x81,
  then the length (the length itself up to 125; 126 and the length in 2 big-endian
  bytes up to 65535; 127 and the length in 8 big-endian bytes above), then the
  message as it is, with no mask bytes. The length is below \<open>2 ^ 64\<close>, as the length
  of every Python string is.
\<close>

theorem send_message_format:
  assumes "peer_open c" and "length message < 2 ^ 64"
  shows "send_message message c =
           (Inr (), c\<lparr>wire := wire c
              @ [129]
              @ (if length message \<le> 125 then [of_nat (length message)]
                 else if length message \<le> 65535 then 126 # be_bytes 2 (length message)
                 else 127 # be_bytes 8 (length message))
              @ message\<rparr>)
         \<and> (if length message \<le> 65535 then be_value (be_bytes 2 (length message))
            else be_value (be_bytes 8 (length message))) = length message"
  using assms
  by (simp add: send_message_def send_length_def send_then_def request_send_def
      struct_pack_def be_value_be_bytes)

theorem send_message_format_witness:
  "peer_open \<lparr>peer_open = True, wire = [], inbox = []\<rparr> \<and> length [72, 105 :: byte] < 2 ^ 64
   \<and> send_message [72, 105] \<lparr>peer_open = True, wire = [], inbox = []\<rparr>
       = (Inr (), \<lparr>peer_open = True, wire = [129, 2, 72, 105], inbox = []\<rparr>)"
  using send_message_format [of "\<lparr>peer_open = True, wire = [], inbox = []\<rparr>" "[72, 105]"]
  by simp

text \<open>
  Claim C10. \<open>read_next_message\<close> never looks at the first byte of a frame: two
  streams that differ only there give the same result, the decoded payload or the
  exception, and leave the same rest of the stream.
\<close>

theorem control_byte_ignored:
  "read_next_message (a # frame) = read_next_message (b # frame)"
  by (cases frame) (simp_all add: read_next_message_def rfile_read_def)

subsection \<open>Rate computation\<close>







subsection \<open>The scheduler\<close>

lemma ws_update_queue:
  "ws_update L w self = (r, self') \<Longrightarrow>
   queue self' =
     (case r of
        Inl e \<Rightarrow> queue self
      | Inr _ \<Rightarrow> sched_enter (time_enter w) (1 / 2) 1 (queue self))"
  by (auto simp: ws_update_def Let_def split: sum.splits prod.splits)

text \<open>
  Claim C4, as it stands, fails: \<^verbatim>\<open>sc.enter\<close> is the last statement of \<^verbatim>\<open>update\<close>
  and nothing catches an exception before it. For a handler whose table is broken at
  the first tick and good at the second, the scheduler's run ends at the first tick
  with the \<^verbatim>\<open>ValueError\<close> of the parser; the queue is empty, nothing was sent, and
  the readings of the second tick are never used.
\<close>

theorem tick_rearm_counterexample:
  "sched_run stub_lib 2 streaming
   = Some (Inl ValueError, streaming\<lparr>queue := [], env := [good_world]\<rparr>)"
  by code_simp

text \<open>
  Claim C4, amended. A tick that ends without an exception queues the next tick half
  a second later, and the run goes on with it. A tick that raises leaves the queue
  without a new event, and the exception ends the scheduler's run: no later tick of
  that run takes place.
\<close>

theorem tick_rearm:
  assumes "queue self = ev # q" and "env self = w # ws"
  shows "case ws_update L w (self\<lparr>queue := q, env := ws\<rparr>) of
           (Inr u, self') \<Rightarrow>
             queue self' = sched_enter (time_enter w) (1 / 2) 1 q
             \<and> sched_run L (Suc n) self = sched_run L n self'
         | (Inl e, self') \<Rightarrow>
             queue self' = q \<and> sched_run L (Suc n) self = Some (Inl e, self')"
proof (cases "ws_update L w (self\<lparr>queue := q, env := ws\<rparr>)")
  case (Pair r self')
  then show ?thesis
    using assms ws_update_queue [OF Pair] by (cases r) simp_all
qed

theorem tick_rearm_witness:
  "queue (streaming\<lparr>env := [good_world]\<rparr>) = [(1 / 2, 1)]
   \<and> env (streaming\<lparr>env := [good_world]\<rparr>) = [good_world]
   \<and> fst (ws_update stub_lib good_world (streaming\<lparr>queue := [], env := []\<rparr>)) = Inr ()
   \<and> queue (snd (ws_update stub_lib good_world (streaming\<lparr>queue := [], env := []\<rparr>)))
       = [(201 / 2, 1)]"
proof -
  let ?S = "streaming\<lparr>env := [good_world]\<rparr>"
  let ?U = "ws_update stub_lib good_world (streaming\<lparr>queue := [], env := []\<rparr>)"
  have a: "queue ?S = [(1 / 2, 1)]" and b: "env ?S = [good_world]"
    by (simp_all add: streaming_def)
  have c: "fst ?U = Inr ()"
    by code_simp
  have "case ws_update stub_lib good_world (?S\<lparr>queue := [], env := []\<rparr>) of
          (Inr u, self') \<Rightarrow>
            queue self' = sched_enter (time_enter good_world) (1 / 2) 1 []
            \<and> sched_run stub_lib (Suc 0) ?S = sched_run stub_lib 0 self'
        | (Inl e, self') \<Rightarrow>
            queue self' = [] \<and> sched_run stub_lib (Suc 0) ?S = Some (Inl e, self')"
    by (rule tick_rearm [OF a b])
  then have "queue (snd ?U) = sched_enter (time_enter good_world) (1 / 2) 1 []"
    using c by (cases ?U) (auto split: sum.splits)
  then show ?thesis
    using a b c by (simp add: sched_enter_def good_world_def)
qed

subsection \<open>The handshake\<close>

lemma hex_value_hex_digit: "n < 16 \<Longrightarrow> hex_value (hex_digit n) = Some n"
proof -
  assume "n < 16"
  then have "n \<in> set [0, 1, 2, 3, 4, 5, 6, 7, 8, 9, 10, 11, 12, 13, 14, 15]"
    by (simp add: numeral_eq_Suc less_Suc_eq)
  then show ?thesis
    by (auto simp: hex_value_def hex_digit_def)
qed

lemma char_of_hex_pair:
  "char_of (16 * ((of_char c :: nat) div 16) + (of_char c :: nat) mod 16) = c"
  by simp

lemma of_char_div_16: "(of_char c :: nat) div 16 < 16"
proof -
  have "(of_char c :: nat) < 256" by simp
  then show ?thesis by arith
qed

lemma unhexlify_hexlify: "unhexlify (hexlify s) = Inr s"
proof (induction s)
  case Nil
  then show ?case by (simp add: hexlify_def)
next
  case (Cons c s)
  have "hexlify (c # s)
        = hex_digit (of_char c div 16) # hex_digit (of_char c mod 16) # hexlify s"
    by (simp add: hexlify_def)
  then show ?case
    using Cons.IH of_char_div_16 [of c]
    by (simp add: hex_value_hex_digit char_of_hex_pair del: of_char_of)
qed

text \<open>
  Claim C6. For a request with \<^verbatim>\<open>Upgrade: websocket\<close> whose key header holds \<open>key\<close>,
  the accept token is the base64 encoding of the raw SHA-1 digest of the key followed
  by the magic string, and the response carries that token. (\<^verbatim>\<open>sha1\<close> and
  \<^verbatim>\<open>b64encode\<close> are those of the library, whatever they compute.)
\<close>

theorem accept_token:
  assumes "after_crlf (py_strip received) = Some text"
    and "message_get (message_of text) ''Upgrade'' = Some ''websocket''"
    and "message_getitem (message_of text) ''Sec-WebSocket-Key'' = Inr key"
  shows "accept_digest L key
           = Inr (b64encode L (sha1 L (key @ ''258EAFA5-E914-47DA-95CA-C5AB0DC85B11'')))
       \<and> handshake_response L received
           = Inr (Some (response_of
                (b64encode L (sha1 L (key @ ''258EAFA5-E914-47DA-95CA-C5AB0DC85B11'')))))"
  using assms
  by (simp add: handshake_response_def accept_digest_def bind_err_def unhexlify_hexlify
      magic_def)

theorem accept_token_witness:
  "after_crlf (py_strip upgrade_request)
     = Some (''Upgrade: websocket'' @ crlf @ ''Sec-WebSocket-Key: dGhlIHNhbXBsZSBub25jZQ=='')
   \<and> message_get
        (message_of (''Upgrade: websocket'' @ crlf @ ''Sec-WebSocket-Key: dGhlIHNhbXBsZSBub25jZQ==''))
        ''Upgrade'' = Some ''websocket''
   \<and> message_getitem
        (message_of (''Upgrade: websocket'' @ crlf @ ''Sec-WebSocket-Key: dGhlIHNhbXBsZSBub25jZQ==''))
        ''Sec-WebSocket-Key'' = Inr ''dGhlIHNhbXBsZSBub25jZQ==''
   \<and> accept_digest stub_lib ''dGhlIHNhbXBsZSBub25jZQ==''
       = Inr (b64encode stub_lib
           (sha1 stub_lib (''dGhlIHNhbXBsZSBub25jZQ=='' @ ''258EAFA5-E914-47DA-95CA-C5AB0DC85B11'')))
   \<and> handshake_response stub_lib upgrade_request
       = Inr (Some (response_of (b64encode stub_lib
           (sha1 stub_lib (''dGhlIHNhbXBsZSBub25jZQ=='' @ ''258EAFA5-E914-47DA-95CA-C5AB0DC85B11'')))))"
proof -
  let ?text = "''Upgrade: websocket'' @ crlf @ ''Sec-WebSocket-Key: dGhlIHNhbXBsZSBub25jZQ==''"
  have a: "after_crlf (py_strip upgrade_request) = Some ?text"
    by code_simp
  have b: "message_get (message_of ?text) ''Upgrade'' = Some ''websocket''"
    by code_simp
  have c: "message_getitem (message_of ?text) ''Sec-WebSocket-Key''
           = Inr ''dGhlIHNhbXBsZSBub25jZQ==''"
    by code_simp
  show ?thesis
    using a b c accept_token [OF a b c, of stub_lib] by simp
qed

text \<open>
  Claim C5, as it stands, fails: after a request without the upgrade header
  \<^verbatim>\<open>handshake\<close> returns, and the loop of \<^verbatim>\<open>handle\<close> calls it again. A peer that
  sends a plain request and then an upgrade request gets the accept response and a
  data frame (the bytes 129, 2 and the message) on the same connection; the session
  ends only with the \<^verbatim>\<open>ValueError\<close> of the broken table at its second tick.
\<close>

theorem handshake_failure_counterexample:
  "handle stub_lib 5 5 (ws_setup 0 fresh)
   = Some (ValueError,
       \<lparr>handshake_done = 121, rate = \<lparr>tx = 9000, rx = 7000, ts = 100\<rparr>,
        pnd = \<lparr>data = Some [(''vlan2'',
                   [(''receive'', [(''bytes'', 7000), (''packets'', 70), (''errs'', 0)]),
                    (''transmit'', [(''bytes'', 9000), (''packets'', 90), (''errs'', 0)])])],
                updated = Some 100, auto_update = True\<rparr>,
        queue = [],
        request = \<lparr>peer_open = True,
                    wire = bytes_of (response_of ''dGhlIHNhbXBsZSBub25j'') @ [129, 2, 123, 125],
                    inbox = []\<rparr>,
        env = []\<rparr>)"
  by code_simp

text \<open>
  Claim C5, amended. For a request with a header block whose \<^verbatim>\<open>Upgrade\<close> header is
  absent or is not \<^verbatim>\<open>websocket\<close>, \<^verbatim>\<open>handshake\<close> returns without an exception, sends
  nothing and leaves \<^verbatim>\<open>handshake_done\<close> false; the loop of \<^verbatim>\<open>handle\<close> goes on from
  that state, where its next round is a handshake on the data received next.
\<close>

theorem handshake_not_upgrade:
  assumes "request_recv 1024 (request self) = (received, c1)"
    and "after_crlf (py_strip (text_of received)) = Some text"
    and "message_get (message_of text) ''Upgrade'' \<noteq> Some ''websocket''"
    and "handshake_done self = 0"
  shows "handshake L n self = Some (Inr (), self\<lparr>request := c1\<rparr>)
       \<and> wire c1 = wire (request self)
       \<and> handshake_done (self\<lparr>request := c1\<rparr>) = 0
       \<and> handle L n (Suc k) self = handle L n k (self\<lparr>request := c1\<rparr>)"
proof -
  have h: "handshake L n self = Some (Inr (), self\<lparr>request := c1\<rparr>)"
    using assms(1-3) by (simp add: handshake_def handshake_response_def)
  have w: "wire c1 = wire (request self)"
    using assms(1) by (auto simp: request_recv_def split: list.splits if_splits)
  show ?thesis
    using h w assms(4) by simp
qed

theorem handshake_not_upgrade_witness:
  "request_recv 1024 (request (ws_setup 0 fresh))
     = (bytes_of plain_request,
        \<lparr>peer_open = True, wire = [], inbox = [bytes_of upgrade_request]\<rparr>)
   \<and> after_crlf (py_strip (text_of (bytes_of plain_request))) = Some ''Host: router''
   \<and> message_get (message_of ''Host: router'') ''Upgrade'' \<noteq> Some ''websocket''
   \<and> handshake_done (ws_setup 0 fresh) = 0
   \<and> handshake stub_lib 5 (ws_setup 0 fresh)
       = Some (Inr (), (ws_setup 0 fresh)
           \<lparr>request := \<lparr>peer_open = True, wire = [], inbox = [bytes_of upgrade_request]\<rparr>\<rparr>)
   \<and> handle stub_lib 5 (Suc 4) (ws_setup 0 fresh)
       = handle stub_lib 5 4 ((ws_setup 0 fresh)
           \<lparr>request := \<lparr>peer_open = True, wire = [], inbox = [bytes_of upgrade_request]\<rparr>\<rparr>)"
proof -
  let ?c = "\<lparr>peer_open = True, wire = [], inbox = [bytes_of upgrade_request]\<rparr>"
  have a: "request_recv 1024 (request (ws_setup 0 fresh)) = (bytes_of plain_request, ?c)"
    by code_simp
  have b: "after_crlf (py_strip (text_of (bytes_of plain_request))) = Some ''Host: router''"
    by code_simp
  have c: "message_get (message_of ''Host: router'') ''Upgrade'' \<noteq> Some ''websocket''"
    by code_simp
  have d: "handshake_done (ws_setup 0 fresh) = 0"
    by (simp add: ws_setup_def)
  show ?thesis
    using a b c d handshake_not_upgrade [OF a b c d, of stub_lib 5 4] by simp
qed

subsection \<open>The counter table\<close>

































end
